theory Spec2Isabelle
  imports Main
begin

section \<open>JavaScript numbers and dates\<close>

text \<open>
  The dating engine of \<^verbatim>\<open>src/lib/utils/pregnancy-calculator.ts\<close> works on JavaScript
  numbers and \<^verbatim>\<open>Date\<close> objects and calls four functions of the date-fns library
  (\<^verbatim>\<open>add\<close>, \<^verbatim>\<open>sub\<close>, \<^verbatim>\<open>differenceInDays\<close>, \<^verbatim>\<open>format\<close>).

  \<^item> A number is an integer or \<^verbatim>\<open>NaN\<close>: \<open>None\<close> is \<^verbatim>\<open>NaN\<close>. Every comparison with
    \<^verbatim>\<open>NaN\<close> is false and arithmetic on \<^verbatim>\<open>NaN\<close> gives \<^verbatim>\<open>NaN\<close>. Fractions and infinities
    do not occur: the gestational age at the scan is a whole number of weeks and days.
  \<^item> A \<^verbatim>\<open>Date\<close> holds a time value, the milliseconds since 1970-01-01T00:00Z, of
    absolute value at most 8.64e15, or \<^verbatim>\<open>NaN\<close> (an Invalid Date). A result outside
    this range is an Invalid Date (\<^verbatim>\<open>TimeClip\<close> of ECMAScript).
  \<^item> Local time is UTC: every calendar day has 86400000 milliseconds.
  \<^item> The clock \<^verbatim>\<open>new Date()\<close> is the parameter \<open>now\<close> of the two entry points.
\<close>

type_synonym number = "int option"

definition isNaN :: "number \<Rightarrow> bool" where
  "isNaN x = (x = None)"

definition num_lt :: "number \<Rightarrow> number \<Rightarrow> bool" where
  "num_lt a b = (case (a, b) of (Some x, Some y) \<Rightarrow> x < y | _ \<Rightarrow> False)"

definition num_le :: "number \<Rightarrow> number \<Rightarrow> bool" where
  "num_le a b = (case (a, b) of (Some x, Some y) \<Rightarrow> x \<le> y | _ \<Rightarrow> False)"

definition num_gt :: "number \<Rightarrow> number \<Rightarrow> bool" where
  "num_gt a b = (case (a, b) of (Some x, Some y) \<Rightarrow> x > y | _ \<Rightarrow> False)"

definition num_ge :: "number \<Rightarrow> number \<Rightarrow> bool" where
  "num_ge a b = (case (a, b) of (Some x, Some y) \<Rightarrow> x \<ge> y | _ \<Rightarrow> False)"

definition num_sub :: "number \<Rightarrow> number \<Rightarrow> number" where
  "num_sub a b = (case (a, b) of (Some x, Some y) \<Rightarrow> Some (x - y) | _ \<Rightarrow> None)"

text \<open>\<^verbatim>\<open>Math.abs(x)\<close>, \<^verbatim>\<open>Math.floor(x / 7)\<close> and \<^verbatim>\<open>x % 7\<close>. The remainder of JavaScript
  takes the sign of the dividend.\<close>

definition Math_abs :: "number \<Rightarrow> number" where
  "Math_abs a = map_option abs a"

definition floor_div7 :: "number \<Rightarrow> number" where
  "floor_div7 a = map_option (\<lambda>x. x div 7) a"

definition rem7 :: "number \<Rightarrow> number" where
  "rem7 a = map_option (\<lambda>x. sgn x * (\<bar>x\<bar> mod 7)) a"

datatype Date = InvalidDate | DateAt int

definition msPerDay :: int where
  "msPerDay = 86400000"

definition maxTime :: int where
  "maxTime = 8640000000000000"

definition timeClip :: "int \<Rightarrow> Date" where
  "timeClip t = (if \<bar>t\<bar> \<le> maxTime then DateAt t else InvalidDate)"

fun getTime :: "Date \<Rightarrow> number" where
  "getTime InvalidDate = None"
| "getTime (DateAt t) = Some t"

text \<open>\<^verbatim>\<open>a > b\<close> on two dates compares their time values.\<close>

definition date_gt :: "Date \<Rightarrow> Date \<Rightarrow> bool" where
  "date_gt a b = num_gt (getTime a) (getTime b)"

subsection \<open>date-fns: add, sub, differenceInDays\<close>

text \<open>A duration \<^verbatim>\<open>{ weeks, days }\<close>; a field left out of the object literal is 0.\<close>

record 'n Duration =
  weeks :: 'n
  days :: 'n

fun addDays :: "Date \<Rightarrow> int \<Rightarrow> Date" where
  "addDays InvalidDate n = InvalidDate"
| "addDays (DateAt t) n = timeClip (t + n * msPerDay)"

definition add :: "Date \<Rightarrow> int Duration \<Rightarrow> Date" where
  "add date duration = addDays date (days duration + weeks duration * 7)"

definition sub :: "Date \<Rightarrow> int Duration \<Rightarrow> Date" where
  "sub date duration = addDays date (- (days duration + weeks duration * 7))"

text \<open>\<^verbatim>\<open>addDays\<close> sets the day of the month, which moves the time value by whole days and
  clips it. \<^verbatim>\<open>differenceInDays\<close> is the number of full days between two dates: date-fns
  takes the difference of the calendar days and one off when the last day is not
  full, which is the quotient truncated towards zero; it is \<^verbatim>\<open>NaN\<close> when a date is
  invalid.\<close>

fun differenceInDays :: "Date \<Rightarrow> Date \<Rightarrow> number" where
  "differenceInDays (DateAt later) (DateAt earlier) =
     Some (sgn (later - earlier) * (\<bar>later - earlier\<bar> div msPerDay))"
| "differenceInDays _ _ = None"

subsection \<open>The calendar\<close>

text \<open>The year, month and day of the month of a time value, as ECMAScript defines them
  (\<^verbatim>\<open>Day\<close>, \<^verbatim>\<open>DayFromYear\<close>, \<^verbatim>\<open>YearFromTime\<close>, \<^verbatim>\<open>InLeapYear\<close>, \<^verbatim>\<open>MonthFromTime\<close>,
  \<^verbatim>\<open>DateFromTime\<close>). \<^verbatim>\<open>YearFromTime\<close> is the largest year that starts on or before
  the day: the search runs down from a year that is not too small.\<close>

definition Day :: "int \<Rightarrow> int" where
  "Day t = t div msPerDay"

definition DayFromYear :: "int \<Rightarrow> int" where
  "DayFromYear y =
     365 * (y - 1970) + (y - 1969) div 4 - (y - 1901) div 100 + (y - 1601) div 400"

function yearFrom :: "int \<Rightarrow> int \<Rightarrow> int" where
  "yearFrom y d = (if DayFromYear y \<le> d then y else yearFrom (y - 1) d)"
  by pat_completeness auto
termination
proof (relation "measure (\<lambda>(y, d). nat (DayFromYear y - d))")
  show "wf (measure (\<lambda>(y, d). nat (DayFromYear y - d)))" by simp
next
  fix y d :: int
  assume far: "\<not> DayFromYear y \<le> d"
  have a: "(y - 1 - 1969) div 4 \<le> (y - 1969) div 4" by (rule zdiv_mono1) simp_all
  have b: "(y - 1 - 1601) div 400 \<le> (y - 1601) div 400" by (rule zdiv_mono1) simp_all
  have c: "(y - 1901) div 100 \<le> (y - 1 - 1901) div 100 + 1" by linarith
  have "(p'::int) \<le> p \<Longrightarrow> (r'::int) \<le> r \<Longrightarrow> (q::int) \<le> q' + 1 \<Longrightarrow>
        365 * (y - 1 - 1970) + p' - q' + r' < 365 * (y - 1970) + p - q + r" for p p' q q' r r'
    by simp
  from this [OF a b c] have "DayFromYear (y - 1) < DayFromYear y"
    unfolding DayFromYear_def .
  with far show "((y - 1, d), (y, d)) \<in> measure (\<lambda>(y, d). nat (DayFromYear y - d))"
    by simp
qed

declare yearFrom.simps [simp del]

definition YearFromDay :: "int \<Rightarrow> int" where
  "YearFromDay d = yearFrom (1970 + (if 0 \<le> d then d div 365 else d div 366)) d"

definition YearFromTime :: "int \<Rightarrow> int" where
  "YearFromTime t = YearFromDay (Day t)"

text \<open>1 in a leap year, 0 otherwise.\<close>

definition leapDays :: "int \<Rightarrow> int" where
  "leapDays y = (if y mod 4 = 0 \<and> (y mod 100 \<noteq> 0 \<or> y mod 400 = 0) then 1 else 0)"

definition InLeapYear :: "int \<Rightarrow> int" where
  "InLeapYear t = leapDays (YearFromTime t)"

definition DayWithinYear :: "int \<Rightarrow> int" where
  "DayWithinYear t = Day t - DayFromYear (YearFromTime t)"

text \<open>The month (0 is January) of the day \<open>d\<close> of a year, and the day of the year on
  which month \<open>m\<close> starts.\<close>

definition monthOfDay :: "int \<Rightarrow> int \<Rightarrow> int" where
  "monthOfDay d leap =
     (if d < 31 then 0 else if d < 59 + leap then 1 else if d < 90 + leap then 2
      else if d < 120 + leap then 3 else if d < 151 + leap then 4
      else if d < 181 + leap then 5 else if d < 212 + leap then 6
      else if d < 243 + leap then 7 else if d < 273 + leap then 8
      else if d < 304 + leap then 9 else if d < 334 + leap then 10
      else 11)"

definition monthStart :: "int \<Rightarrow> int \<Rightarrow> int" where
  "monthStart m leap =
     (if m = 0 then 0 else if m = 1 then 31 else if m = 2 then 59 + leap
      else if m = 3 then 90 + leap else if m = 4 then 120 + leap
      else if m = 5 then 151 + leap else if m = 6 then 181 + leap
      else if m = 7 then 212 + leap else if m = 8 then 243 + leap
      else if m = 9 then 273 + leap else if m = 10 then 304 + leap
      else 334 + leap)"

definition MonthFromTime :: "int \<Rightarrow> int" where
  "MonthFromTime t = monthOfDay (DayWithinYear t) (InLeapYear t)"

definition DateFromTime :: "int \<Rightarrow> int" where
  "DateFromTime t = DayWithinYear t - monthStart (MonthFromTime t) (InLeapYear t) + 1"

subsection \<open>date-fns: format\<close>

text \<open>\<^verbatim>\<open>format\<close> throws \<^verbatim>\<open>RangeError: Invalid time value\<close> on an Invalid Date. The engine
  uses three format strings, in the default locale (en-US).\<close>

datatype error = RangeError

datatype FormatStr = MMM_d | MMM_d_yyyy | yyyy_MM_dd

definition digit :: "nat \<Rightarrow> char" where
  "digit n = ''0123456789'' ! n"

fun decimal :: "nat \<Rightarrow> string" where
  "decimal n = (if n < 10 then [digit n] else decimal (n div 10) @ [digit (n mod 10)])"

declare decimal.simps [simp del]

definition padStart :: "string \<Rightarrow> nat \<Rightarrow> char \<Rightarrow> string" where
  "padStart s targetLength c = replicate (targetLength - length s) c @ s"

definition addLeadingZeros :: "int \<Rightarrow> nat \<Rightarrow> string" where
  "addLeadingZeros n targetLength =
     (if n < 0 then ''-'' else []) @ padStart (decimal (nat \<bar>n\<bar>)) targetLength (CHR ''0'')"

definition monthAbbr :: "int \<Rightarrow> string" where
  "monthAbbr m =
     [''Jan'', ''Feb'', ''Mar'', ''Apr'', ''May'', ''Jun'',
      ''Jul'', ''Aug'', ''Sep'', ''Oct'', ''Nov'', ''Dec''] ! nat m"

text \<open>The tokens: \<^verbatim>\<open>MMM\<close>, \<^verbatim>\<open>d\<close>, \<^verbatim>\<open>yyyy\<close> (a year before 1 is written as its
  distance from year 1), \<^verbatim>\<open>MM\<close>, \<^verbatim>\<open>dd\<close>.\<close>

definition tok_MMM :: "int \<Rightarrow> string" where
  "tok_MMM t = monthAbbr (MonthFromTime t)"

definition tok_d :: "int \<Rightarrow> string" where
  "tok_d t = addLeadingZeros (DateFromTime t) 1"

definition eraYear :: "int \<Rightarrow> int" where
  "eraYear signedYear = (if signedYear > 0 then signedYear else 1 - signedYear)"

definition tok_yyyy :: "int \<Rightarrow> string" where
  "tok_yyyy t = addLeadingZeros (eraYear (YearFromTime t)) 4"

definition tok_MM :: "int \<Rightarrow> string" where
  "tok_MM t = addLeadingZeros (MonthFromTime t + 1) 2"

definition tok_dd :: "int \<Rightarrow> string" where
  "tok_dd t = addLeadingZeros (DateFromTime t) 2"

fun formatTime :: "int \<Rightarrow> FormatStr \<Rightarrow> string" where
  "formatTime t MMM_d = tok_MMM t @ '' '' @ tok_d t"
| "formatTime t MMM_d_yyyy = tok_MMM t @ '' '' @ tok_d t @ '', '' @ tok_yyyy t"
| "formatTime t yyyy_MM_dd = tok_yyyy t @ ''-'' @ tok_MM t @ ''-'' @ tok_dd t"

fun format :: "Date \<Rightarrow> FormatStr \<Rightarrow> error + string" where
  "format InvalidDate f = Inl RangeError"
| "format (DateAt t) f = Inr (formatTime t f)"

section \<open>The redating threshold\<close>

text \<open>
  \<^verbatim>\<open>
  function getRedatingThreshold(gaWeeks: number): number {
    switch (true) {
      case gaWeeks < 5:   return 0
      case gaWeeks <= 8:  return 5
      case gaWeeks <= 13: return 7
      case gaWeeks <= 15: return 10
      case gaWeeks <= 21: return 14
      case gaWeeks <= 27: return 21
      default:            return 21
    }
  }
  \<close>
\<close>

definition getRedatingThreshold :: "number \<Rightarrow> int" where
  "getRedatingThreshold gaWeeks =
     (if num_lt gaWeeks (Some 5) then 0
      else if num_le gaWeeks (Some 8) then 5
      else if num_le gaWeeks (Some 13) then 7
      else if num_le gaWeeks (Some 15) then 10
      else if num_le gaWeeks (Some 21) then 14
      else if num_le gaWeeks (Some 27) then 21
      else 21)"

section \<open>The dating engine\<close>

subsection \<open>The milestone catalog\<close>

text \<open>\<^verbatim>\<open>startDays\<close> and \<^verbatim>\<open>endDays\<close> are optional fields; the code reads them as
  \<^verbatim>\<open>m.startDays || 0\<close>.\<close>

record Milestone =
  name :: string
  startWeeks :: int
  startDays :: "int option"
  endWeeks :: int
  endDays :: "int option"

definition pregnancyMilestones :: "Milestone list" where
  "pregnancyMilestones =
     [\<lparr>name = ''Blood Screening'', startWeeks = 10, startDays = None,
        endWeeks = 13, endDays = Some 6\<rparr>,
      \<lparr>name = ''First Fetal Heart Tones by Doppler'', startWeeks = 11, startDays = None,
        endWeeks = 12, endDays = None\<rparr>,
      \<lparr>name = ''NT scan window'', startWeeks = 11, startDays = Some 2,
        endWeeks = 14, endDays = Some 2\<rparr>,
      \<lparr>name = ''Anatomy scan window'', startWeeks = 18, startDays = None,
        endWeeks = 21, endDays = None\<rparr>,
      \<lparr>name = ''Typical anatomy scan'', startWeeks = 20, startDays = None,
        endWeeks = 20, endDays = None\<rparr>,
      \<lparr>name = ''Glucose screen'', startWeeks = 24, startDays = None,
        endWeeks = 28, endDays = None\<rparr>,
      \<lparr>name = ''GBS screen'', startWeeks = 35, startDays = None,
        endWeeks = 37, endDays = None\<rparr>,
      \<lparr>name = ''Tdap vaccination'', startWeeks = 27, startDays = None,
        endWeeks = 36, endDays = None\<rparr>]"

definition or_zero :: "int option \<Rightarrow> int" where
  "or_zero x = (case x of None \<Rightarrow> 0 | Some d \<Rightarrow> d)"

subsection \<open>The result\<close>

datatype Source = LMP | Ultrasound | LMP_CONFIRMED

text \<open>An entry \<^verbatim>\<open>{ name, dateRange }\<close> of \<^verbatim>\<open>milestoneDates\<close> is the pair
  \<open>(name, dateRange)\<close>.\<close>

type_synonym MilestoneDate = "string \<times> string"

record 'n PregnancyInfo =
  lmpEdd :: Date
  ultrasoundEdd :: Date
  bestEstimateEdd :: Date
  source :: Source
  gestationalAgeWeeks :: number
  gestationalAgeDays :: number
  conceptionDate :: Date
  trimester :: int
  firstTrimesterEnd :: Date
  secondTrimesterEnd :: Date
  discrepancyDays :: 'n
  milestoneDates :: "MilestoneDate list"

subsection \<open>The milestone strings\<close>

text \<open>
  \<^verbatim>\<open>
  pregnancyMilestones.map((m) => {
    const startDate = add(estimatedLmp, { weeks: m.startWeeks, days: m.startDays || 0 })
    const endDate = add(estimatedLmp, { weeks: m.endWeeks, days: m.endDays || 0 })
    const startStr = format(startDate, 'MMM d')
    const endStr = format(endDate, 'MMM d, yyyy')
    const isSameDay = format(startDate, 'yyyy-MM-dd') === format(endDate, 'yyyy-MM-dd')
    const dateRange = isSameDay ? endStr : `${startStr} - ${endStr}`
    return { name: m.name, dateRange }
  })
  \<close>
  The same text stands in both entry points. A call of \<^verbatim>\<open>format\<close> that throws ends the
  whole computation.
\<close>

definition bindE :: "error + 'a \<Rightarrow> ('a \<Rightarrow> error + 'b) \<Rightarrow> error + 'b" where
  "bindE r f = (case r of Inl e \<Rightarrow> Inl e | Inr x \<Rightarrow> f x)"

fun mapE :: "('a \<Rightarrow> error + 'b) \<Rightarrow> 'a list \<Rightarrow> error + 'b list" where
  "mapE f [] = Inr []"
| "mapE f (x # xs) = bindE (f x) (\<lambda>y. bindE (mapE f xs) (\<lambda>ys. Inr (y # ys)))"

definition milestoneDate :: "Date \<Rightarrow> Milestone \<Rightarrow> error + MilestoneDate" where
  "milestoneDate estimatedLmp m =
     (let startDate = add estimatedLmp
            \<lparr>weeks = startWeeks m, days = or_zero (startDays m)\<rparr>;
          endDate = add estimatedLmp \<lparr>weeks = endWeeks m, days = or_zero (endDays m)\<rparr>
      in bindE (format startDate MMM_d) (\<lambda>startStr.
         bindE (format endDate MMM_d_yyyy) (\<lambda>endStr.
         bindE (format startDate yyyy_MM_dd) (\<lambda>startKey.
         bindE (format endDate yyyy_MM_dd) (\<lambda>endKey.
           let isSameDay = (startKey = endKey);
               dateRange = (if isSameDay then endStr else startStr @ '' - '' @ endStr)
           in Inr (name m, dateRange))))))"

subsection \<open>calculatePregnancyFromEdd\<close>

text \<open>The first argument is the clock; \<open>None\<close> as the date is \<^verbatim>\<open>null\<close> or
  \<^verbatim>\<open>undefined\<close>; the result \<open>Inr None\<close> is \<^verbatim>\<open>null\<close>, \<open>Inl RangeError\<close> a thrown
  exception.\<close>

definition calculatePregnancyFromEdd :: "int \<Rightarrow> Date option \<Rightarrow> error + number PregnancyInfo option" where
  "calculatePregnancyFromEdd now eddArg =
     (case eddArg of
        None \<Rightarrow> Inr None
      | Some edd \<Rightarrow>
          if isNaN (getTime edd) then Inr None
          else
            let estimatedLmp = sub edd \<lparr>weeks = 0, days = 280\<rparr>;
                today = DateAt now;
                diff = differenceInDays today estimatedLmp;
                currentGaInDays = (if num_lt diff (Some 0) then Some 0 else diff);
                gestationalAgeWeeks = floor_div7 currentGaInDays;
                gestationalAgeDays = rem7 currentGaInDays;
                firstTrimesterEnd = add estimatedLmp \<lparr>weeks = 13, days = 6\<rparr>;
                secondTrimesterEnd = add estimatedLmp \<lparr>weeks = 27, days = 6\<rparr>;
                trimester = (if date_gt today secondTrimesterEnd then 3
                             else if date_gt today firstTrimesterEnd then 2 else 1)
            in bindE (mapE (milestoneDate estimatedLmp) pregnancyMilestones)
                 (\<lambda>milestoneDates.
                    let conceptionDate = sub edd \<lparr>weeks = 0, days = 266\<rparr>
                    in Inr (Some
                         \<lparr>lmpEdd = edd,
                          ultrasoundEdd = edd,
                          bestEstimateEdd = edd,
                          source = Ultrasound,
                          gestationalAgeWeeks = gestationalAgeWeeks,
                          gestationalAgeDays = gestationalAgeDays,
                          conceptionDate = conceptionDate,
                          trimester = trimester,
                          firstTrimesterEnd = firstTrimesterEnd,
                          secondTrimesterEnd = secondTrimesterEnd,
                          discrepancyDays = Some 0,
                          milestoneDates = milestoneDates\<rparr>)))"

subsection \<open>calculatePregnancyInfo\<close>

text \<open>The block that runs when the scan date and both parts of the scan age are given
  assigns \<^verbatim>\<open>ultrasoundEdd\<close>, \<^verbatim>\<open>bestEstimateEdd\<close>, \<^verbatim>\<open>source\<close> and \<^verbatim>\<open>discrepancyDays\<close>;
  the model returns the four as a tuple. A \<^verbatim>\<open>Date\<close> object is truthy also when it is
  an Invalid Date. The scan age is \<open>None\<close> for \<^verbatim>\<open>undefined\<close> and a whole number
  otherwise.\<close>

definition calculatePregnancyInfo ::
  "int \<Rightarrow> Date option \<Rightarrow> Date option \<Rightarrow> int option \<Rightarrow> int option
     \<Rightarrow> error + number PregnancyInfo option" where
  "calculatePregnancyInfo now lmpArg ultrasoundArg gaWeeks gaDays =
     (case lmpArg of
        None \<Rightarrow> Inr None
      | Some lmpDate \<Rightarrow>
          if isNaN (getTime lmpDate) then Inr None
          else
            let lmpEdd = add lmpDate \<lparr>weeks = 0, days = 280\<rparr>;
                (ultrasoundEdd, bestEstimateEdd, source, discrepancyDays) =
                  (case (ultrasoundArg, gaWeeks, gaDays) of
                     (Some ultrasoundDate, Some gw, Some gd) \<Rightarrow>
                       let measuredGaInDays = gw * 7 + gd;
                           ultrasoundEdd =
                             add ultrasoundDate \<lparr>weeks = 0, days = 280 - measuredGaInDays\<rparr>;
                           lmpBasedGaInDays = differenceInDays ultrasoundDate lmpDate;
                           discrepancyDays =
                             Math_abs (num_sub lmpBasedGaInDays (Some measuredGaInDays));
                           gaWeeksByLmp = floor_div7 lmpBasedGaInDays;
                           redatingThreshold = getRedatingThreshold gaWeeksByLmp
                       in if num_ge gaWeeksByLmp (Some 5)
                             \<and> num_gt discrepancyDays (Some redatingThreshold)
                          then (ultrasoundEdd, ultrasoundEdd, Ultrasound, discrepancyDays)
                          else (ultrasoundEdd, lmpEdd, LMP_CONFIRMED, discrepancyDays)
                   | _ \<Rightarrow> (lmpEdd, lmpEdd, LMP, Some 0));
                estimatedLmp = sub bestEstimateEdd \<lparr>weeks = 0, days = 280\<rparr>;
                today = DateAt now;
                diff = differenceInDays today estimatedLmp;
                currentGaInDays = (if num_lt diff (Some 0) then Some 0 else diff);
                gestationalAgeWeeks = floor_div7 currentGaInDays;
                gestationalAgeDays = rem7 currentGaInDays;
                firstTrimesterEnd = add estimatedLmp \<lparr>weeks = 13, days = 6\<rparr>;
                secondTrimesterEnd = add estimatedLmp \<lparr>weeks = 27, days = 6\<rparr>;
                trimester = (if date_gt today secondTrimesterEnd then 3
                             else if date_gt today firstTrimesterEnd then 2 else 1)
            in bindE (mapE (milestoneDate estimatedLmp) pregnancyMilestones)
                 (\<lambda>milestoneDates.
                    Inr (Some
                      \<lparr>lmpEdd = lmpEdd,
                       ultrasoundEdd = ultrasoundEdd,
                       bestEstimateEdd = bestEstimateEdd,
                       source = source,
                       gestationalAgeWeeks = gestationalAgeWeeks,
                       gestationalAgeDays = gestationalAgeDays,
                       conceptionDate = add estimatedLmp \<lparr>weeks = 2, days = 0\<rparr>,
                       trimester = trimester,
                       firstTrimesterEnd = firstTrimesterEnd,
                       secondTrimesterEnd = secondTrimesterEnd,
                       discrepancyDays = discrepancyDays,
                       milestoneDates = milestoneDates\<rparr>)))"

section \<open>The two halves of calculatePregnancyInfo\<close>

text \<open>The proofs take \<^verbatim>\<open>calculatePregnancyInfo\<close> apart at the end of its \<^verbatim>\<open>if\<close> block:
  \<open>redating\<close> is the block with the initial values of its four variables, \<open>derive\<close> is
  the rest of the function, on the LMP-based due date \<open>le\<close>, the scan-based due date
  \<open>ue\<close>, the best estimate \<open>be\<close>, the source and the discrepancy.\<close>

definition redating ::
  "Date \<Rightarrow> Date option \<Rightarrow> int option \<Rightarrow> int option \<Rightarrow> Date \<times> Date \<times> Source \<times> number" where
  "redating lmpDate ultrasoundArg gaWeeks gaDays =
     (let lmpEdd = add lmpDate \<lparr>weeks = 0, days = 280\<rparr>
      in case (ultrasoundArg, gaWeeks, gaDays) of
           (Some ultrasoundDate, Some gw, Some gd) \<Rightarrow>
             let measuredGaInDays = gw * 7 + gd;
                 ultrasoundEdd =
                   add ultrasoundDate \<lparr>weeks = 0, days = 280 - measuredGaInDays\<rparr>;
                 lmpBasedGaInDays = differenceInDays ultrasoundDate lmpDate;
                 discrepancyDays =
                   Math_abs (num_sub lmpBasedGaInDays (Some measuredGaInDays));
                 gaWeeksByLmp = floor_div7 lmpBasedGaInDays;
                 redatingThreshold = getRedatingThreshold gaWeeksByLmp
             in if num_ge gaWeeksByLmp (Some 5)
                   \<and> num_gt discrepancyDays (Some redatingThreshold)
                then (ultrasoundEdd, ultrasoundEdd, Ultrasound, discrepancyDays)
                else (ultrasoundEdd, lmpEdd, LMP_CONFIRMED, discrepancyDays)
         | _ \<Rightarrow> (lmpEdd, lmpEdd, LMP, Some 0))"

definition derive ::
  "int \<Rightarrow> Date \<Rightarrow> Date \<Rightarrow> Date \<Rightarrow> Source \<Rightarrow> number \<Rightarrow> error + number PregnancyInfo option" where
  "derive now le ue be src disc =
     (let estimatedLmp = sub be \<lparr>weeks = 0, days = 280\<rparr>;
          today = DateAt now;
          diff = differenceInDays today estimatedLmp;
          currentGaInDays = (if num_lt diff (Some 0) then Some 0 else diff);
          gestationalAgeWeeks = floor_div7 currentGaInDays;
          gestationalAgeDays = rem7 currentGaInDays;
          firstTrimesterEnd = add estimatedLmp \<lparr>weeks = 13, days = 6\<rparr>;
          secondTrimesterEnd = add estimatedLmp \<lparr>weeks = 27, days = 6\<rparr>;
          trimester = (if date_gt today secondTrimesterEnd then 3
                       else if date_gt today firstTrimesterEnd then 2 else 1)
      in bindE (mapE (milestoneDate estimatedLmp) pregnancyMilestones)
           (\<lambda>milestoneDates.
              Inr (Some
                \<lparr>lmpEdd = le,
                 ultrasoundEdd = ue,
                 bestEstimateEdd = be,
                 source = src,
                 gestationalAgeWeeks = gestationalAgeWeeks,
                 gestationalAgeDays = gestationalAgeDays,
                 conceptionDate = add estimatedLmp \<lparr>weeks = 2, days = 0\<rparr>,
                 trimester = trimester,
                 firstTrimesterEnd = firstTrimesterEnd,
                 secondTrimesterEnd = secondTrimesterEnd,
                 discrepancyDays = disc,
                 milestoneDates = milestoneDates\<rparr>)))"

section \<open>The shared derivation, as the specification words it\<close>

text \<open>The specification derives every field but the three due dates, the source and the
  discrepancy from one estimated LMP and the clock. The definitions below follow its
  words; the theorems compare the code with them. \<open>e\<close> is the time value of the
  estimated LMP.\<close>

definition ageDays :: "int \<Rightarrow> int \<Rightarrow> int" where
  "ageDays now e = max 0 (sgn (now - e) * (\<bar>now - e\<bar> div msPerDay))"

definition trimesterAt :: "int \<Rightarrow> int \<Rightarrow> int" where
  "trimesterAt now e =
     (if now > e + (27 * 7 + 6) * msPerDay then 3
      else if now > e + (13 * 7 + 6) * msPerDay then 2 else 1)"

text \<open>The offsets of a catalog entry in days, and its text: one date when start and end
  fall on the same calendar day, a range otherwise. The separator of the range is a
  parameter.\<close>

definition startOffset :: "Milestone \<Rightarrow> int" where
  "startOffset m = startWeeks m * 7 + or_zero (startDays m)"

definition endOffset :: "Milestone \<Rightarrow> int" where
  "endOffset m = endWeeks m * 7 + or_zero (endDays m)"

definition rangeText :: "string \<Rightarrow> int \<Rightarrow> Milestone \<Rightarrow> string" where
  "rangeText separator e m =
     (let startTime = e + startOffset m * msPerDay;
          endTime = e + endOffset m * msPerDay
      in if Day startTime = Day endTime then formatTime endTime MMM_d_yyyy
         else formatTime startTime MMM_d @ separator @ formatTime endTime MMM_d_yyyy)"

text \<open>The separator of the code is a hyphen-minus between two spaces. The specification
  prints an en dash (U+2013) between the spaces; in UTF-8 it is three bytes.\<close>

definition hyphenSeparator :: string where
  "hyphenSeparator = '' - ''"


definition milestoneTexts :: "string \<Rightarrow> int \<Rightarrow> MilestoneDate list" where
  "milestoneTexts separator e = map (\<lambda>m. (name m, rangeText separator e m)) pregnancyMilestones"

text \<open>The record that the shared derivation gives from the estimated LMP \<open>e\<close>, the
  three due dates, the source and the discrepancy: the age in completed weeks and
  days, conception 14 days after the estimated LMP, the two trimester cutoffs at
  13 weeks 6 days and 27 weeks 6 days, the trimester, and the milestone texts.\<close>

definition derivedFrom ::
  "int \<Rightarrow> int \<Rightarrow> Date \<Rightarrow> Date \<Rightarrow> Date \<Rightarrow> Source \<Rightarrow> number \<Rightarrow> number PregnancyInfo" where
  "derivedFrom now e le ue be src disc =
     \<lparr>lmpEdd = le,
      ultrasoundEdd = ue,
      bestEstimateEdd = be,
      source = src,
      gestationalAgeWeeks = Some (ageDays now e div 7),
      gestationalAgeDays = Some (ageDays now e mod 7),
      conceptionDate = DateAt (e + 14 * msPerDay),
      trimester = trimesterAt now e,
      firstTrimesterEnd = DateAt (e + (13 * 7 + 6) * msPerDay),
      secondTrimesterEnd = DateAt (e + (27 * 7 + 6) * msPerDay),
      discrepancyDays = disc,
      milestoneDates = milestoneTexts hyphenSeparator e\<rparr>"

text \<open>The redating rule of the specification, on the LMP-based age at the scan in days
  (\<^verbatim>\<open>NaN\<close> when the scan date is invalid) and the measured age in days.\<close>

definition redatingRule :: "number \<Rightarrow> int \<Rightarrow> bool" where
  "redatingRule lmpBasedGaDays measuredGaDays =
     (case lmpBasedGaDays of
        None \<Rightarrow> False
      | Some g \<Rightarrow> 5 \<le> g div 7 \<and> getRedatingThreshold (Some (g div 7)) < \<bar>g - measuredGaDays\<bar>)"

section \<open>Three runs\<close>




section \<open>Reading a decimal numeral\<close>

text \<open>The value of a string of decimal digits; it recovers a number from its padded
  numeral, so that two different numbers never print alike.\<close>

definition parseDecimal :: "string \<Rightarrow> nat" where
  "parseDecimal s = foldl (\<lambda>a c. 10 * a + (of_char c - 48)) 0 s"

section \<open>Comparisons of numbers\<close>

lemma num_cmp_simps [simp]:
  "num_lt (Some x) (Some y) = (x < y)"
  "num_le (Some x) (Some y) = (x \<le> y)"
  "num_gt (Some x) (Some y) = (y < x)"
  "num_ge (Some x) (Some y) = (y \<le> x)"
  "num_lt None b = False" "num_lt a None = False"
  "num_le None b = False" "num_le a None = False"
  "num_gt None b = False" "num_gt a None = False"
  "num_ge None b = False" "num_ge a None = False"
  by (simp_all add: num_lt_def num_le_def num_gt_def num_ge_def split: option.splits)

section \<open>Decimal numerals print injectively\<close>

lemma digit_table: "\<forall>k \<in> set [0..<10]. (of_char (digit k) :: nat) = 48 + k"
  by code_simp

lemma of_char_digit: "n < 10 \<Longrightarrow> (of_char (digit n) :: nat) = 48 + n"
  using digit_table by simp

lemma digit_not_dash: "n < 10 \<Longrightarrow> digit n \<noteq> CHR ''-''"
proof
  assume "n < 10" and "digit n = CHR ''-''"
  then have "(of_char (digit n) :: nat) = of_char CHR ''-''" by simp
  with \<open>n < 10\<close> show False by (simp add: of_char_digit)
qed

lemma decimal_no_dash: "CHR ''-'' \<notin> set (decimal n)"
proof (induction n rule: decimal.induct)
  case (1 n)
  show ?case
  proof (cases "n < 10")
    case True
    then show ?thesis using digit_not_dash [of n] by (subst decimal.simps) auto
  next
    case False
    then have "CHR ''-'' \<notin> set (decimal (n div 10))" using 1 by simp
    moreover have "digit (n mod 10) \<noteq> CHR ''-''" by (rule digit_not_dash) simp
    ultimately show ?thesis using False by (subst decimal.simps) auto
  qed
qed

lemma parseDecimal_decimal: "parseDecimal (decimal n) = n"
proof (induction n rule: decimal.induct)
  case (1 n)
  show ?case
  proof (cases "n < 10")
    case True
    then show ?thesis by (subst decimal.simps) (simp add: parseDecimal_def of_char_digit)
  next
    case False
    then have ih: "parseDecimal (decimal (n div 10)) = n div 10" using 1 by simp
    have "parseDecimal (decimal n) = 10 * parseDecimal (decimal (n div 10)) + n mod 10"
      using False by (subst decimal.simps) (simp add: parseDecimal_def of_char_digit)
    with ih show ?thesis by simp
  qed
qed

lemma parseDecimal_zeros: "parseDecimal (replicate k CHR ''0'' @ s) = parseDecimal s"
  by (induction k) (simp_all add: parseDecimal_def)

lemma padded_value: "parseDecimal (padStart (decimal n) k CHR ''0'') = n"
  by (simp add: padStart_def parseDecimal_zeros parseDecimal_decimal)

lemma padded_no_dash: "CHR ''-'' \<notin> set (padStart (decimal n) k CHR ''0'')"
  using decimal_no_dash [of n] by (auto simp: padStart_def)

lemma addLeadingZeros_nonneg:
  "0 \<le> n \<Longrightarrow> addLeadingZeros n k = padStart (decimal (nat n)) k CHR ''0''"
  by (simp add: addLeadingZeros_def)

lemma padded_inj:
  "padStart (decimal m) j CHR ''0'' = padStart (decimal n) k CHR ''0'' \<Longrightarrow> m = n"
  using padded_value [of m j] padded_value [of n k] by simp

lemma takeWhile_until: "x \<notin> set xs \<Longrightarrow> takeWhile (\<lambda>c. c \<noteq> x) (xs @ x # ys) = xs"
  by (induction xs) auto

lemma split_at_first:
  assumes "x \<notin> set xs" "x \<notin> set xs'" "xs @ x # ys = xs' @ x # ys'"
  shows "xs = xs' \<and> ys = ys'"
proof -
  have "takeWhile (\<lambda>c. c \<noteq> x) (xs @ x # ys) = xs"
    using assms(1) by (rule takeWhile_until)
  moreover have "takeWhile (\<lambda>c. c \<noteq> x) (xs' @ x # ys') = xs'"
    using assms(2) by (rule takeWhile_until)
  ultimately have "xs = xs'" using assms(3) by simp
  with assms(3) show ?thesis by simp
qed

lemma ymd_key_inj:
  assumes nn: "0 \<le> a" "0 \<le> b" "0 \<le> c" "0 \<le> a'" "0 \<le> b'" "0 \<le> c'"
    and eq: "addLeadingZeros a 4 @ ''-'' @ addLeadingZeros b 2 @ ''-'' @ addLeadingZeros c 2
           = addLeadingZeros a' 4 @ ''-'' @ addLeadingZeros b' 2 @ ''-'' @ addLeadingZeros c' 2"
  shows "a = a' \<and> b = b' \<and> c = c'"
proof -
  let ?P = "\<lambda>n k. padStart (decimal (nat n)) k CHR ''0''"
  from eq nn have e1: "?P a 4 @ CHR ''-'' # (?P b 2 @ CHR ''-'' # ?P c 2)
      = ?P a' 4 @ CHR ''-'' # (?P b' 2 @ CHR ''-'' # ?P c' 2)"
    by (simp add: addLeadingZeros_nonneg)
  have "?P a 4 = ?P a' 4 \<and> ?P b 2 @ CHR ''-'' # ?P c 2 = ?P b' 2 @ CHR ''-'' # ?P c' 2"
    by (rule split_at_first [OF padded_no_dash padded_no_dash e1])
  then have a: "?P a 4 = ?P a' 4" and e2: "?P b 2 @ CHR ''-'' # ?P c 2 = ?P b' 2 @ CHR ''-'' # ?P c' 2"
    by simp_all
  have "?P b 2 = ?P b' 2 \<and> ?P c 2 = ?P c' 2"
    by (rule split_at_first [OF padded_no_dash padded_no_dash e2])
  with a have "nat a = nat a'" "nat b = nat b'" "nat c = nat c'"
    by (auto dest: padded_inj)
  with nn show ?thesis by arith
qed

section \<open>The calendar day behind the key yyyy-MM-dd\<close>

text \<open>The code decides that two dates fall on the same day by comparing their
  \<^verbatim>\<open>yyyy-MM-dd\<close> texts. For two dates less than 363 days apart the texts agree exactly
  when the days do: a year before 1 prints like a year after it, but never within
  a year of it.\<close>

lemma yearFrom_starts: "DayFromYear (yearFrom y d) \<le> d"
proof (induction y d rule: yearFrom.induct)
  case (1 y d)
  then show ?case by (subst yearFrom.simps) simp
qed

text \<open>The search finds the year of ECMAScript: the one that starts on or before the day
  and whose successor starts after it.\<close>

lemma search_start_nonneg:
  assumes "0 \<le> d"
  shows "d < DayFromYear (1970 + d div 365 + 1)"
proof -
  define k where "k = d div 365"
  have k: "0 \<le> k" "d < 365 * k + 365" using assms by (simp_all add: k_def)
  have a: "(k + 70) div 100 \<le> (k + 2) div 4" using k(1) by linarith
  have b: "0 \<le> (k + 370) div 400" using k(1) by simp
  have "(p::int) \<le> q \<Longrightarrow> 0 \<le> r \<Longrightarrow> d < 365 * (k + 1) + q - p + r" for p q r
    using k(2) by simp
  from this [OF a b] show ?thesis
    by (simp add: DayFromYear_def k_def [symmetric] algebra_simps)
qed

lemma search_start_neg:
  assumes "d < 0"
  shows "d < DayFromYear (1970 + d div 366 + 1)"
proof -
  define k where "k = d div 366"
  have k: "k \<le> - 1" "d < 366 * k + 366" using assms by (simp_all add: k_def)
  have a: "4 * ((k + 2) div 4) \<ge> k - 1" by linarith
  have b: "100 * ((k + 70) div 100) \<le> k + 70" by linarith
  have c: "400 * ((k + 370) div 400) \<ge> k - 29" by linarith
  have "k < (k + 2) div 4 - (k + 70) div 100 + (k + 370) div 400"
  proof (cases "k = - 1")
    case True
    then show ?thesis by simp
  next
    case False
    with k(1) have "k \<le> - 2" by simp
    with a b c show ?thesis by linarith
  qed
  then have "(366 * k + 366) \<le> 365 * (k + 1) + ((k + 2) div 4 - (k + 70) div 100 + (k + 370) div 400)"
    by simp
  with k(2) show ?thesis
    by (simp add: DayFromYear_def k_def [symmetric] algebra_simps)
qed

lemma yearFrom_ends: "d < DayFromYear (y + 1) \<Longrightarrow> d < DayFromYear (yearFrom y d + 1)"
proof (induction y d rule: yearFrom.induct)
  case (1 y d)
  show ?case
  proof (cases "DayFromYear y \<le> d")
    case True
    with 1(2) show ?thesis by (subst yearFrom.simps) simp
  next
    case False
    then have "d < DayFromYear (y - 1 + 1)" by simp
    from 1(1) [OF False this] False show ?thesis by (subst yearFrom.simps) simp
  qed
qed

lemma YearFromDay_is_the_year:
  "DayFromYear (YearFromDay d) \<le> d \<and> d < DayFromYear (YearFromDay d + 1)"
proof (cases "0 \<le> d")
  case True
  with search_start_nonneg [OF True] yearFrom_ends [of d "1970 + d div 365"] show ?thesis
    by (simp add: YearFromDay_def yearFrom_starts)
next
  case False
  then have "d < 0" by simp
  with search_start_neg [OF this] yearFrom_ends [of d "1970 + d div 366"] show ?thesis
    by (simp add: YearFromDay_def yearFrom_starts)
qed

lemma DayWithinYear_nonneg: "0 \<le> DayWithinYear t"
  using yearFrom_starts by (simp add: DayWithinYear_def YearFromTime_def YearFromDay_def)

lemma InLeapYear_cases: "InLeapYear t = 0 \<or> InLeapYear t = 1"
  by (simp add: InLeapYear_def leapDays_def)

lemma monthStart_le_day: "monthStart (MonthFromTime t) (InLeapYear t) \<le> DayWithinYear t"
  using DayWithinYear_nonneg [of t] InLeapYear_cases [of t]
  by (auto simp: MonthFromTime_def monthOfDay_def monthStart_def)

lemma DateFromTime_pos: "1 \<le> DateFromTime t"
  using monthStart_le_day [of t] by (simp add: DateFromTime_def)

lemma MonthFromTime_nonneg: "0 \<le> MonthFromTime t"
  by (simp add: MonthFromTime_def monthOfDay_def)

lemma Day_decomposition:
  "Day t = DayFromYear (YearFromTime t) + monthStart (MonthFromTime t) (InLeapYear t)
           + DateFromTime t - 1"
  by (simp add: DateFromTime_def DayWithinYear_def)

lemma monthStart_leap:
  "(l = 0 \<or> l = 1) \<Longrightarrow> (l' = 0 \<or> l' = 1) \<Longrightarrow> \<bar>monthStart m l - monthStart m l'\<bar> \<le> 1"
  by (auto simp: monthStart_def)

lemma DayFromYear_gap:
  assumes "y2 < y1"
  shows "DayFromYear y2 + 364 \<le> DayFromYear y1"
proof -
  have a: "(y2 - 1969) div 4 \<le> (y1 - 1969) div 4" using assms by (intro zdiv_mono1) simp_all
  have b: "(y2 - 1601) div 400 \<le> (y1 - 1601) div 400" using assms by (intro zdiv_mono1) simp_all
  have c: "(y1 - 1901) div 100 \<le> (y2 - 1901) div 100 + (y1 - y2)" using assms by linarith
  have "(p'::int) \<le> p \<Longrightarrow> (r'::int) \<le> r \<Longrightarrow> (q::int) \<le> q' + (y1 - y2) \<Longrightarrow>
        365 * (y2 - 1970) + p' - q' + r' + 364 \<le> 365 * (y1 - 1970) + p - q + r" for p p' q q' r r'
    using assms by simp
  from this [OF a b c] show ?thesis unfolding DayFromYear_def .
qed

lemma same_Day_same_text: "Day t1 = Day t2 \<Longrightarrow> formatTime t1 f = formatTime t2 f"
  by (cases f)
    (simp_all add: tok_MMM_def tok_d_def tok_yyyy_def tok_MM_def tok_dd_def MonthFromTime_def
      DateFromTime_def DayWithinYear_def InLeapYear_def YearFromTime_def)

lemma same_key_same_Day:
  assumes key: "formatTime t1 yyyy_MM_dd = formatTime t2 yyyy_MM_dd"
    and near: "\<bar>Day t1 - Day t2\<bar> < 363"
  shows "Day t1 = Day t2"
proof -
  let ?yy = "\<lambda>t. eraYear (YearFromTime t)"
  have "?yy t1 = ?yy t2 \<and> MonthFromTime t1 + 1 = MonthFromTime t2 + 1
        \<and> DateFromTime t1 = DateFromTime t2"
  proof (rule ymd_key_inj)
    show "addLeadingZeros (?yy t1) 4 @ ''-'' @ addLeadingZeros (MonthFromTime t1 + 1) 2 @ ''-''
            @ addLeadingZeros (DateFromTime t1) 2
        = addLeadingZeros (?yy t2) 4 @ ''-'' @ addLeadingZeros (MonthFromTime t2 + 1) 2 @ ''-''
            @ addLeadingZeros (DateFromTime t2) 2"
      using key by (simp add: tok_yyyy_def tok_MM_def tok_dd_def)
  qed (use MonthFromTime_nonneg [of t1] MonthFromTime_nonneg [of t2]
        DateFromTime_pos [of t1] DateFromTime_pos [of t2] in \<open>simp_all add: eraYear_def\<close>)
  then have yy: "?yy t1 = ?yy t2" and m: "MonthFromTime t1 = MonthFromTime t2"
    and d: "DateFromTime t1 = DateFromTime t2" by simp_all
  show ?thesis
  proof (cases "YearFromTime t1 = YearFromTime t2")
    case True
    then have "InLeapYear t1 = InLeapYear t2" by (simp add: InLeapYear_def)
    with True m d show ?thesis
      using Day_decomposition [of t1] Day_decomposition [of t2] by simp
  next
    case False
    have ms: "\<bar>monthStart (MonthFromTime t1) (InLeapYear t1)
               - monthStart (MonthFromTime t2) (InLeapYear t2)\<bar> \<le> 1"
      unfolding m by (rule monthStart_leap [OF InLeapYear_cases InLeapYear_cases])
    from False consider "YearFromTime t1 < YearFromTime t2" | "YearFromTime t2 < YearFromTime t1"
      by linarith
    then have "364 \<le> \<bar>DayFromYear (YearFromTime t1) - DayFromYear (YearFromTime t2)\<bar>"
    proof cases
      case 1 from DayFromYear_gap [OF 1] show ?thesis by linarith
    next
      case 2 from DayFromYear_gap [OF 2] show ?thesis by linarith
    qed
    with ms d near show ?thesis
      using Day_decomposition [of t1] Day_decomposition [of t2] by linarith
  qed
qed

section \<open>The milestone strings\<close>

lemma bindE_simps [simp]:
  "bindE (Inl e) f = Inl e"
  "bindE (Inr x) f = f x"
  by (simp_all add: bindE_def)

lemma error_is_RangeError [simp]: "(e::error) = RangeError"
  by (cases e) simp

lemma Day_shift: "Day (t + k * msPerDay) = Day t + k"
  by (simp add: Day_def msPerDay_def)

lemma add_DateAt:
  "add (DateAt t) \<lparr>weeks = w, days = d\<rparr> = timeClip (t + (d + w * 7) * msPerDay)"
  by (simp add: add_def)

lemma sub_DateAt:
  "sub (DateAt t) \<lparr>weeks = w, days = d\<rparr> = timeClip (t - (d + w * 7) * msPerDay)"
  by (simp add: sub_def algebra_simps)

lemma add_sub_Invalid [simp]: "add InvalidDate x = InvalidDate" "sub InvalidDate x = InvalidDate"
  by (simp_all add: add_def sub_def)

lemma milestoneDate_Invalid: "milestoneDate InvalidDate m = Inl RangeError"
  by (simp add: milestoneDate_def)

lemma milestoneDate_late:
  assumes "maxTime < \<bar>e + endOffset m * msPerDay\<bar>"
  shows "milestoneDate (DateAt e) m = Inl RangeError"
proof -
  have "add (DateAt e) \<lparr>weeks = endWeeks m, days = or_zero (endDays m)\<rparr> = InvalidDate"
    using assms by (simp add: add_DateAt timeClip_def endOffset_def add.commute)
  then show ?thesis
    by (cases "format (add (DateAt e) \<lparr>weeks = startWeeks m, days = or_zero (startDays m)\<rparr>) MMM_d")
       (simp_all add: milestoneDate_def Let_def)
qed

lemma milestoneDate_valid:
  assumes s: "\<bar>e + startOffset m * msPerDay\<bar> \<le> maxTime"
    and e: "\<bar>e + endOffset m * msPerDay\<bar> \<le> maxTime"
    and near: "\<bar>startOffset m - endOffset m\<bar> < 363"
  shows "milestoneDate (DateAt e) m = Inr (name m, rangeText '' - '' e m)"
proof -
  let ?s = "e + startOffset m * msPerDay" and ?e = "e + endOffset m * msPerDay"
  have sd: "add (DateAt e) \<lparr>weeks = startWeeks m, days = or_zero (startDays m)\<rparr> = DateAt ?s"
    using s by (simp add: add_DateAt timeClip_def startOffset_def add.commute)
  have ed: "add (DateAt e) \<lparr>weeks = endWeeks m, days = or_zero (endDays m)\<rparr> = DateAt ?e"
    using e by (simp add: add_DateAt timeClip_def endOffset_def add.commute)
  have "\<bar>Day ?s - Day ?e\<bar> < 363" using near by (simp add: Day_shift)
  then have key: "(formatTime ?s yyyy_MM_dd = formatTime ?e yyyy_MM_dd) = (Day ?s = Day ?e)"
    using same_key_same_Day [of ?s ?e] same_Day_same_text [of ?s ?e yyyy_MM_dd] by blast
  show ?thesis
    unfolding milestoneDate_def sd ed Let_def rangeText_def
    by (simp only: format.simps bindE_simps key)
qed

lemma mapE_all_Inr: "(\<And>x. x \<in> set xs \<Longrightarrow> f x = Inr (g x)) \<Longrightarrow> mapE f xs = Inr (map g xs)"
  by (induction xs) simp_all

lemma mapE_some_Inl: "x \<in> set xs \<Longrightarrow> f x = Inl RangeError \<Longrightarrow> mapE f xs = Inl RangeError"
proof (induction xs)
  case Nil
  then show ?case by simp
next
  case (Cons a xs)
  then show ?case
    by (cases "f a"; cases "mapE f xs") auto
qed

lemma catalog_offsets:
  "m \<in> set pregnancyMilestones \<Longrightarrow>
     0 \<le> startOffset m \<and> startOffset m \<le> endOffset m \<and> endOffset m \<le> 259
     \<and> endOffset m - startOffset m \<le> 63"
  by (auto simp: pregnancyMilestones_def startOffset_def endOffset_def or_zero_def)

lemma milestones_returned:
  assumes "- maxTime \<le> e" "e + 259 * msPerDay \<le> maxTime"
  shows "mapE (milestoneDate (DateAt e)) pregnancyMilestones
         = Inr (map (\<lambda>m. (name m, rangeText '' - '' e m)) pregnancyMilestones)"
proof (rule mapE_all_Inr)
  fix m assume "m \<in> set pregnancyMilestones"
  from catalog_offsets [OF this]
  have o: "0 \<le> startOffset m" "startOffset m \<le> endOffset m" "endOffset m \<le> 259"
    "endOffset m - startOffset m \<le> 63" by simp_all
  have d: "0 < msPerDay" by (simp add: msPerDay_def)
  have "0 \<le> startOffset m * msPerDay" "startOffset m * msPerDay \<le> 259 * msPerDay"
    "0 \<le> endOffset m * msPerDay" "endOffset m * msPerDay \<le> 259 * msPerDay"
    using o d by (simp_all add: mult_right_mono)
  with assms have "\<bar>e + startOffset m * msPerDay\<bar> \<le> maxTime" "\<bar>e + endOffset m * msPerDay\<bar> \<le> maxTime"
    by linarith+
  then show "milestoneDate (DateAt e) m = Inr (name m, rangeText '' - '' e m)"
    using o by (intro milestoneDate_valid) simp_all
qed

lemma milestones_thrown:
  assumes "maxTime < e + 259 * msPerDay"
  shows "mapE (milestoneDate (DateAt e)) pregnancyMilestones = Inl RangeError"
proof (rule mapE_some_Inl)
  let ?gbs = "\<lparr>name = ''GBS screen'', startWeeks = 35, startDays = None,
        endWeeks = 37, endDays = None\<rparr>"
  show "?gbs \<in> set pregnancyMilestones" by (simp add: pregnancyMilestones_def)
  show "milestoneDate (DateAt e) ?gbs = Inl RangeError"
    using assms by (intro milestoneDate_late) (simp add: endOffset_def or_zero_def)
qed

lemma milestones_Invalid: "mapE (milestoneDate InvalidDate) pregnancyMilestones = Inl RangeError"
  by (simp add: pregnancyMilestones_def milestoneDate_Invalid)

section \<open>The code against the shared derivation\<close>

lemma sub_in_range: "sub be d = DateAt e \<Longrightarrow> \<bar>e\<bar> \<le> maxTime"
  by (cases be) (auto simp: sub_def timeClip_def split: if_splits)

lemma age_fields:
  "floor_div7 (if num_lt (differenceInDays (DateAt now) (DateAt e)) (Some 0) then Some 0
               else differenceInDays (DateAt now) (DateAt e)) = Some (ageDays now e div 7)"
  "rem7 (if num_lt (differenceInDays (DateAt now) (DateAt e)) (Some 0) then Some 0
         else differenceInDays (DateAt now) (DateAt e)) = Some (ageDays now e mod 7)"
  by (auto simp: floor_div7_def rem7_def ageDays_def max_def sgn_if)

lemma derive_valid:
  assumes est: "sub be \<lparr>weeks = 0, days = 280\<rparr> = DateAt e"
    and late: "e + 259 * msPerDay \<le> maxTime"
  shows "derive now le ue be src disc = Inr (Some (derivedFrom now e le ue be src disc))"
proof -
  from est have lo: "\<bar>e\<bar> \<le> maxTime" by (rule sub_in_range)
  have d: "0 < msPerDay" by (simp add: msPerDay_def)
  have r: "\<bar>e + 97 * msPerDay\<bar> \<le> maxTime" "\<bar>e + 195 * msPerDay\<bar> \<le> maxTime"
    "\<bar>e + 14 * msPerDay\<bar> \<le> maxTime"
    using lo late d by linarith+
  have ms: "mapE (milestoneDate (DateAt e)) pregnancyMilestones
      = Inr (milestoneTexts hyphenSeparator e)"
    using lo late by (simp add: milestones_returned milestoneTexts_def hyphenSeparator_def)
  show ?thesis
    unfolding derive_def est Let_def ms bindE_simps age_fields
    using r by (simp add: derivedFrom_def add_DateAt timeClip_def date_gt_def trimesterAt_def)
qed

lemma derive_thrown_Invalid:
  "sub be \<lparr>weeks = 0, days = 280\<rparr> = InvalidDate \<Longrightarrow> derive now le ue be src disc = Inl RangeError"
  by (simp add: derive_def Let_def milestones_Invalid)

lemma derive_thrown_late:
  "sub be \<lparr>weeks = 0, days = 280\<rparr> = DateAt e \<Longrightarrow> maxTime < e + 259 * msPerDay
     \<Longrightarrow> derive now le ue be src disc = Inl RangeError"
  by (simp add: derive_def Let_def milestones_thrown)

lemma derive_result:
  assumes "derive now le ue be src disc = Inr (Some r)"
  shows "\<exists>e. sub be \<lparr>weeks = 0, days = 280\<rparr> = DateAt e \<and> \<bar>e\<bar> \<le> maxTime
           \<and> e + 259 * msPerDay \<le> maxTime \<and> r = derivedFrom now e le ue be src disc"
proof (cases "sub be \<lparr>weeks = 0, days = 280\<rparr>")
  case InvalidDate
  with assms show ?thesis by (simp add: derive_thrown_Invalid)
next
  case (DateAt e)
  show ?thesis
  proof (cases "e + 259 * msPerDay \<le> maxTime")
    case True
    with DateAt assms show ?thesis by (auto simp: derive_valid dest: sub_in_range)
  next
    case False
    with DateAt assms show ?thesis by (simp add: derive_thrown_late)
  qed
qed

lemma derive_not_null: "derive now le ue be src disc \<noteq> Inr None"
proof (cases "sub be \<lparr>weeks = 0, days = 280\<rparr>")
  case InvalidDate
  then show ?thesis by (simp add: derive_thrown_Invalid)
next
  case (DateAt e)
  then show ?thesis
    by (cases "e + 259 * msPerDay \<le> maxTime") (simp_all add: derive_valid derive_thrown_late)
qed

lemma calculatePregnancyInfo_split:
  "calculatePregnancyInfo now (Some (DateAt l)) u gw gd =
     (case redating (DateAt l) u gw gd of
        (ue, be, src, disc) \<Rightarrow> derive now (add (DateAt l) \<lparr>weeks = 0, days = 280\<rparr>) ue be src disc)"
  by (simp add: calculatePregnancyInfo_def redating_def derive_def isNaN_def Let_def
      split: option.splits prod.splits)

lemma calculatePregnancyInfo_null:
  "(calculatePregnancyInfo now lmp u gw gd = Inr None) = (lmp = None \<or> lmp = Some InvalidDate)"
proof (cases lmp)
  case None
  then show ?thesis by (simp add: calculatePregnancyInfo_def)
next
  case (Some d)
  show ?thesis
  proof (cases d)
    case InvalidDate
    with Some show ?thesis by (simp add: calculatePregnancyInfo_def isNaN_def)
  next
    case (DateAt l)
    with Some show ?thesis
      by (simp add: calculatePregnancyInfo_split derive_not_null split: prod.splits)
  qed
qed


lemma calculatePregnancyFromEdd_split:
  "calculatePregnancyFromEdd now (Some (DateAt t)) =
     (case derive now (DateAt t) (DateAt t) (DateAt t) Ultrasound (Some 0) of
        Inl x \<Rightarrow> Inl x
      | Inr None \<Rightarrow> Inr None
      | Inr (Some r) \<Rightarrow> Inr (Some (r\<lparr>conceptionDate := sub (DateAt t) \<lparr>weeks = 0, days = 266\<rparr>\<rparr>)))"
  by (cases "mapE (milestoneDate (sub (DateAt t) \<lparr>weeks = 0, days = 280\<rparr>)) pregnancyMilestones")
     (simp_all add: calculatePregnancyFromEdd_def derive_def isNaN_def Let_def)



lemma calculatePregnancyFromEdd_null:
  "(calculatePregnancyFromEdd now edd = Inr None) = (edd = None \<or> edd = Some InvalidDate)"
proof (cases edd)
  case None
  then show ?thesis by (simp add: calculatePregnancyFromEdd_def)
next
  case (Some d)
  show ?thesis
  proof (cases d)
    case InvalidDate
    with Some show ?thesis by (simp add: calculatePregnancyFromEdd_def isNaN_def)
  next
    case (DateAt t)
    with Some show ?thesis
      using derive_not_null [of now "DateAt t" "DateAt t" "DateAt t" Ultrasound "Some 0"]
      by (simp add: calculatePregnancyFromEdd_split split: sum.splits option.splits)
  qed
qed


lemma redating_scan:
  "redating lmp (Some usd) (Some gw) (Some gd) =
     (add usd \<lparr>weeks = 0, days = 280 - (gw * 7 + gd)\<rparr>,
      if redatingRule (differenceInDays usd lmp) (gw * 7 + gd)
      then add usd \<lparr>weeks = 0, days = 280 - (gw * 7 + gd)\<rparr>
      else add lmp \<lparr>weeks = 0, days = 280\<rparr>,
      if redatingRule (differenceInDays usd lmp) (gw * 7 + gd) then Ultrasound else LMP_CONFIRMED,
      map_option (\<lambda>g. \<bar>g - (gw * 7 + gd)\<bar>) (differenceInDays usd lmp))"
  by (cases "differenceInDays usd lmp")
     (simp_all add: redating_def redatingRule_def Let_def floor_div7_def Math_abs_def num_sub_def)

lemma forward_result:
  assumes "calculatePregnancyInfo now lmp u gw gd = Inr (Some r)"
  shows "\<exists>l ue be src disc e. lmp = Some (DateAt l)
           \<and> redating (DateAt l) u gw gd = (ue, be, src, disc)
           \<and> sub be \<lparr>weeks = 0, days = 280\<rparr> = DateAt e \<and> \<bar>e\<bar> \<le> maxTime
           \<and> e + 259 * msPerDay \<le> maxTime
           \<and> r = derivedFrom now e (add (DateAt l) \<lparr>weeks = 0, days = 280\<rparr>) ue be src disc"
proof -
  from assms obtain l where lmp: "lmp = Some (DateAt l)"
    by (cases lmp; cases "the lmp") (auto simp: calculatePregnancyInfo_def isNaN_def)
  obtain ue be src disc where red: "redating (DateAt l) u gw gd = (ue, be, src, disc)"
    by (cases "redating (DateAt l) u gw gd") auto
  from assms have "derive now (add (DateAt l) \<lparr>weeks = 0, days = 280\<rparr>) ue be src disc = Inr (Some r)"
    unfolding lmp calculatePregnancyInfo_split red by simp
  from derive_result [OF this] lmp red show ?thesis by blast
qed

section \<open>The three runs, evaluated\<close>












section \<open>What every returned record is made of\<close>


lemma add_280_valid:
  "- maxTime \<le> l \<Longrightarrow> l + 280 * msPerDay \<le> maxTime \<Longrightarrow>
     add (DateAt l) \<lparr>weeks = 0, days = 280\<rparr> = DateAt (l + 280 * msPerDay)"
  by (simp add: add_DateAt timeClip_def msPerDay_def)

lemma forward_lmp_confirmed:
  assumes lo: "- maxTime \<le> l" and hi: "l + 280 * msPerDay \<le> maxTime"
    and red: "redating (DateAt l) u gw gd = (ue, add (DateAt l) \<lparr>weeks = 0, days = 280\<rparr>, src, disc)"
  shows "calculatePregnancyInfo now (Some (DateAt l)) u gw gd
           = Inr (Some (derivedFrom now l (DateAt (l + 280 * msPerDay)) ue
                          (DateAt (l + 280 * msPerDay)) src disc))"
proof -
  have le: "add (DateAt l) \<lparr>weeks = 0, days = 280\<rparr> = DateAt (l + 280 * msPerDay)"
    using lo hi by (rule add_280_valid)
  have est: "sub (DateAt (l + 280 * msPerDay)) \<lparr>weeks = 0, days = 280\<rparr> = DateAt l"
    using lo hi by (simp add: sub_DateAt timeClip_def msPerDay_def)
  have late: "l + 259 * msPerDay \<le> maxTime" using hi by (simp add: msPerDay_def)
  show ?thesis
    unfolding calculatePregnancyInfo_split red le by (simp add: derive_valid [OF est late])
qed


section \<open>Properties of the engine\<close>

subsection \<open>The redating decision\<close>



subsection \<open>The threshold bands\<close>

text \<open>
  C2. The threshold lookup returns, for every completed week count from 0 on, the band of
  the guideline: 0 days below 5 weeks, 5 days for weeks 5 to 8, 7 days for weeks 9 to 13,
  10 days for weeks 14 and 15, 14 days for weeks 16 to 21, 21 days for weeks 22 to 27 and
  21 days from week 28 on. The function is total and has no error result: its value is
  a plain number of days.
\<close>

theorem getRedatingThreshold_bands:
  "0 \<le> w \<Longrightarrow>
     (w < 5 \<longrightarrow> getRedatingThreshold (Some w) = 0) \<and>
     (5 \<le> w \<and> w \<le> 8 \<longrightarrow> getRedatingThreshold (Some w) = 5) \<and>
     (9 \<le> w \<and> w \<le> 13 \<longrightarrow> getRedatingThreshold (Some w) = 7) \<and>
     (14 \<le> w \<and> w \<le> 15 \<longrightarrow> getRedatingThreshold (Some w) = 10) \<and>
     (16 \<le> w \<and> w \<le> 21 \<longrightarrow> getRedatingThreshold (Some w) = 14) \<and>
     (22 \<le> w \<and> w \<le> 27 \<longrightarrow> getRedatingThreshold (Some w) = 21) \<and>
     (28 \<le> w \<longrightarrow> getRedatingThreshold (Some w) = 21)"
  by (simp add: getRedatingThreshold_def)

theorem getRedatingThreshold_bands_witness:
  "getRedatingThreshold (Some 0) = 0 \<and> getRedatingThreshold (Some 4) = 0 \<and>
   getRedatingThreshold (Some 5) = 5 \<and> getRedatingThreshold (Some 8) = 5 \<and>
   getRedatingThreshold (Some 9) = 7 \<and> getRedatingThreshold (Some 13) = 7 \<and>
   getRedatingThreshold (Some 14) = 10 \<and> getRedatingThreshold (Some 15) = 10 \<and>
   getRedatingThreshold (Some 16) = 14 \<and> getRedatingThreshold (Some 21) = 14 \<and>
   getRedatingThreshold (Some 22) = 21 \<and> getRedatingThreshold (Some 27) = 21 \<and>
   getRedatingThreshold (Some 28) = 21 \<and> getRedatingThreshold (Some 40) = 21"
  using getRedatingThreshold_bands [of 0] getRedatingThreshold_bands [of 4]
    getRedatingThreshold_bands [of 5] getRedatingThreshold_bands [of 8]
    getRedatingThreshold_bands [of 9] getRedatingThreshold_bands [of 13]
    getRedatingThreshold_bands [of 14] getRedatingThreshold_bands [of 15]
    getRedatingThreshold_bands [of 16] getRedatingThreshold_bands [of 21]
    getRedatingThreshold_bands [of 22] getRedatingThreshold_bands [of 27]
    getRedatingThreshold_bands [of 28] getRedatingThreshold_bands [of 40]
  by simp

subsection \<open>The reverse path\<close>




subsection \<open>The forward path without a scan\<close>




subsection \<open>The two paths agree\<close>




subsection \<open>The age today\<close>



subsection \<open>The trimester\<close>



subsection \<open>Thrown exceptions\<close>

text \<open>
  C8. The entry points test the date they are given, not the dates they derive from it.
  With the LMP 2024-01-01, a scan on 2024-02-26 and a scan age of 30000000 weeks
  0 days, the scan-based due date is an Invalid Date; the LMP-based age of 8 weeks and
  the discrepancy make it the best estimate, and \<^verbatim>\<open>calculatePregnancyInfo\<close> throws
  \<^verbatim>\<open>RangeError\<close> where it formats the first milestone.
\<close>

theorem derived_date_out_of_range_throws:
  "calculatePregnancyInfo 1709251200000 (Some (DateAt 1704067200000))
     (Some (DateAt 1708905600000)) (Some 30000000) (Some 0) = Inl RangeError"
  by (simp add: calculatePregnancyInfo_split redating_scan redatingRule_def
      getRedatingThreshold_def derive_thrown_Invalid add_DateAt timeClip_def msPerDay_def
      maxTime_def)

subsection \<open>The milestone texts\<close>




subsection \<open>A scan before the LMP\<close>

text \<open>
  C10, amended. When the scan date lies strictly before a valid LMP and both parts of the
  scan age are given, every record that \<^verbatim>\<open>calculatePregnancyInfo\<close> returns has the
  source \<open>LMP_CONFIRMED\<close> and the LMP-based due date as its best estimate, and a record
  is returned whenever the LMP plus 280 days is still a date that \<^verbatim>\<open>Date\<close> can hold.
  The LMP-based age at the scan is zero or negative, so its completed weeks are
  below 5.
\<close>

theorem scan_before_lmp:
  assumes before: "u < l"
  shows "(\<forall>r. calculatePregnancyInfo now (Some (DateAt l)) (Some (DateAt u)) (Some gw) (Some gd)
               = Inr (Some r) \<longrightarrow>
            source r = LMP_CONFIRMED \<and> bestEstimateEdd r = lmpEdd r)
       \<and> (- maxTime \<le> l \<and> l + 280 * msPerDay \<le> maxTime \<longrightarrow>
            (\<exists>r. calculatePregnancyInfo now (Some (DateAt l)) (Some (DateAt u)) (Some gw) (Some gd)
                   = Inr (Some r)))
       \<and> (\<exists>g. differenceInDays (DateAt u) (DateAt l) = Some g \<and> g \<le> 0 \<and> g div 7 < 5)"
proof -
  have g: "sgn (u - l) * (\<bar>u - l\<bar> div msPerDay) \<le> 0"
    using before by (simp add: sgn_if msPerDay_def pos_imp_zdiv_nonneg_iff)
  then have weeks: "sgn (u - l) * (\<bar>u - l\<bar> div msPerDay) div 7 < 5" by linarith
  then have rule: "\<not> redatingRule (differenceInDays (DateAt u) (DateAt l)) (gw * 7 + gd)"
    by (simp add: redatingRule_def)
  have red: "redating (DateAt l) (Some (DateAt u)) (Some gw) (Some gd)
      = (add (DateAt u) \<lparr>weeks = 0, days = 280 - (gw * 7 + gd)\<rparr>,
         add (DateAt l) \<lparr>weeks = 0, days = 280\<rparr>, LMP_CONFIRMED,
         map_option (\<lambda>g. \<bar>g - (gw * 7 + gd)\<bar>) (differenceInDays (DateAt u) (DateAt l)))"
    unfolding redating_scan using rule by simp
  have fields: "source r = LMP_CONFIRMED \<and> bestEstimateEdd r = lmpEdd r"
    if "calculatePregnancyInfo now (Some (DateAt l)) (Some (DateAt u)) (Some gw) (Some gd)
          = Inr (Some r)" for r
    using forward_result [OF that] red by (auto simp: derivedFrom_def)
  have returns: "\<exists>r. calculatePregnancyInfo now (Some (DateAt l)) (Some (DateAt u)) (Some gw) (Some gd)
                  = Inr (Some r)"
    if "- maxTime \<le> l" "l + 280 * msPerDay \<le> maxTime"
    using forward_lmp_confirmed [OF that red, of now] by simp
  have "\<exists>g. differenceInDays (DateAt u) (DateAt l) = Some g \<and> g \<le> 0 \<and> g div 7 < 5"
    using g weeks by simp
  with fields returns show ?thesis by blast
qed

theorem scan_before_lmp_witness:
  "(1703808000000::int) < 1704067200000
   \<and> - maxTime \<le> 1704067200000 \<and> 1704067200000 + 280 * msPerDay \<le> maxTime
   \<and> (\<exists>r. calculatePregnancyInfo 1709251200000 (Some (DateAt 1704067200000))
              (Some (DateAt 1703808000000)) (Some 8) (Some 0) = Inr (Some r)
            \<and> source r = LMP_CONFIRMED \<and> bestEstimateEdd r = lmpEdd r)
   \<and> differenceInDays (DateAt 1703808000000) (DateAt 1704067200000) = Some (- 3)"
  using scan_before_lmp [of 1703808000000 1704067200000 1709251200000 8 0]
  by (auto simp: msPerDay_def maxTime_def)

text \<open>With the LMP at the latest date that \<^verbatim>\<open>Date\<close> can hold and the scan one day
  before it, no record is returned.\<close>

theorem scan_before_lmp_beyond_range:
  "calculatePregnancyInfo 1709251200000 (Some (DateAt 8640000000000000))
     (Some (DateAt 8639999913600000)) (Some 8) (Some 0) = Inl RangeError"
  by (simp add: calculatePregnancyInfo_split redating_scan redatingRule_def derive_thrown_Invalid
      add_DateAt timeClip_def msPerDay_def maxTime_def)

end
